theory Spec2Isabelle
  imports Main
begin

section \<open>Function commands of the schema (edb/lang/schema/functions.py)\<close>

subsection \<open>Names, type objects, parameters\<close>

text \<open>
  \<open>sn.Name\<close> is declared in another module of the repository. This file builds one with
  \<open>sn.Name(module=..., name=...)\<close> and reads \<open>name.module\<close>, so a name is the pair of
  its module and its local name.
\<close>

record Name =
  module :: string
  name :: string

text \<open>
  The objects found in a parameter-type list. Their classes (\<open>so.ObjectRef\<close>,
  \<open>s_types.Collection\<close>, every other type) are declared in other modules; each variant
  carries the attributes this file reads from it:
  \<^item> \<open>ObjectRef classname name\<close>: \<open>pt.classname\<close> and \<open>pt.name\<close>;
  \<^item> \<open>Collection schema_name element_type name\<close>: \<open>pt.schema_name\<close>,
    \<open>pt.element_type\<close> and \<open>pt.name\<close>;
  \<^item> \<open>Type name\<close>: any other type object, of which only \<open>pt.name\<close> is read.
\<close>

datatype SchemaType =
    ObjectRef string string
  | Collection string SchemaType string
  | Type string

fun type_name :: "SchemaType \<Rightarrow> string" where
  "type_name (ObjectRef classname nm) = nm"
| "type_name (Collection schema_name element_type nm) = nm"
| "type_name (Type nm) = nm"

text \<open>\<open>qlast.ParameterKind\<close> and \<open>qlast.TypeModifier\<close>, with the members the spec lists.\<close>

datatype ParameterKind = POSITIONAL | NAMED_ONLY | VARIADIC

datatype TypeModifier = SINGLETON | OPTIONAL | SET_OF

text \<open>
  One entry of \<open>astnode.args\<close>: \<open>arg.name\<close>, \<open>arg.type\<close>, \<open>arg.typemod\<close>,
  \<open>arg.kind\<close> and \<open>arg.default\<close> (\<open>None\<close> when the parameter has no default). The
  syntactic type and the default expression are syntax-tree nodes of the parser:
  \<open>'ty\<close> and \<open>'ex\<close>.
\<close>

record ('ty, 'ex) FuncParam =
  arg_name :: string
  arg_type :: 'ty
  arg_typemod :: TypeModifier
  arg_kind :: ParameterKind
  arg_default :: "'ex option"

text \<open>
  The statement nodes. Every function statement has \<open>astnode.args\<close>;
  \<open>qlast.CreateFunction\<close> adds the fields \<open>_cmd_tree_from_ast\<close> reads. The
  implementation block \<open>astnode.code\<close> has \<open>language\<close>, \<open>from_name\<close> and \<open>code\<close>
  (here \<open>code_text\<close>).
\<close>

record 'lang FunctionCode =
  language :: 'lang
  from_name :: "string option"
  code_text :: "string option"

record ('ty, 'ex) FunctionStmt =
  args :: "('ty, 'ex) FuncParam list"

record ('ty, 'ex, 'lang) CreateFunctionStmt = "('ty, 'ex) FunctionStmt" +
  returning :: 'ty
  returning_typemod :: TypeModifier
  aggregate :: bool
  initial_value :: "'ex option"
  code :: "'lang FunctionCode option"

record ParametersInfo =
  paramnames :: "string list"
  paramdefaults :: "string option list"
  paramtypes :: "SchemaType list"
  paramtypemods :: "TypeModifier list"
  paramkinds :: "ParameterKind list"
  variadic :: "nat option"

text \<open>
  The errors this file raises. All three are \<open>ql_errors.EdgeQLError\<close> in the source and
  differ by their message:
  \<^item> \<open>PolymorphicDefaultError\<close>: "polymorphic parameter of type ... cannot have a default
    value" (\<open>_add_to_schema\<close>);
  \<^item> \<open>DuplicateSignatureError\<close>: "a function with the same signature is already defined"
    (\<open>_add_to_schema\<close>);
  \<^item> \<open>InvalidParameterKindError\<close>: "named only parameters are not allowed in this
    context" (\<open>parameters_from_ast\<close>).
  \<open>KeyError k\<close> is Python's error for \<open>props[k]\<close> when the dictionary has no key \<open>k\<close>.
\<close>

datatype error =
    PolymorphicDefaultError
  | DuplicateSignatureError
  | InvalidParameterKindError
  | KeyError string

subsection \<open>\<open>parameters_from_ast\<close>\<close>

text \<open>
  The body of the \<open>for argi, arg in enumerate(astnode.args)\<close> loop, on the lists
  collected so far. \<open>generate_source\<close> is \<open>codegen.generate_source\<close> and
  \<open>ast_to_typeref\<close> is \<open>utils.ast_to_typeref\<close> with \<open>modaliases\<close> and \<open>schema\<close>
  fixed; both are collaborators outside this file and are taken to return. The raise
  for a named-only parameter is the last statement of the body.
\<close>

fun parameters_loop ::
  "('ex \<Rightarrow> string) \<Rightarrow> ('ty \<Rightarrow> SchemaType) \<Rightarrow> bool \<Rightarrow> nat \<Rightarrow>
   ('ty, 'ex) FuncParam list \<Rightarrow> ParametersInfo \<Rightarrow> error + ParametersInfo" where
  "parameters_loop generate_source ast_to_typeref allow_named argi [] acc = Inr acc"
| "parameters_loop generate_source ast_to_typeref allow_named argi (arg # rest) acc =
     (let acc1 = acc\<lparr>paramnames := paramnames acc @ [arg_name arg],
                      paramtypemods := paramtypemods acc @ [arg_typemod arg],
                      paramkinds := paramkinds acc @ [arg_kind arg]\<rparr>;
          default = (case arg_default arg of
                       None \<Rightarrow> None
                     | Some d \<Rightarrow> Some (generate_source d));
          acc2 = acc1\<lparr>paramdefaults := paramdefaults acc1 @ [default],
                       paramtypes := paramtypes acc1 @ [ast_to_typeref (arg_type arg)]\<rparr>;
          acc3 = (if arg_kind arg = VARIADIC then acc2\<lparr>variadic := Some argi\<rparr> else acc2)
      in if arg_kind arg = NAMED_ONLY \<and> \<not> allow_named
         then Inl InvalidParameterKindError
         else parameters_loop generate_source ast_to_typeref allow_named (Suc argi) rest acc3)"

definition parameters_from_ast ::
  "('ex \<Rightarrow> string) \<Rightarrow> ('ty \<Rightarrow> SchemaType) \<Rightarrow> ('ty, 'ex, 'm) FunctionStmt_scheme \<Rightarrow> bool \<Rightarrow>
   error + ParametersInfo" where
  "parameters_from_ast generate_source ast_to_typeref astnode allow_named =
     parameters_loop generate_source ast_to_typeref allow_named 0 (args astnode)
       \<lparr>paramnames = [], paramdefaults = [], paramtypes = [], paramtypemods = [],
        paramkinds = [], variadic = None\<rparr>"

subsection \<open>\<open>FunctionCommandMixin._get_function_fullname\<close>\<close>

text \<open>The \<open>for pt in paramtypes\<close> loop, appending to \<open>quals\<close>.\<close>

fun quals_loop :: "SchemaType list \<Rightarrow> string list \<Rightarrow> string list" where
  "quals_loop [] quals = quals"
| "quals_loop (pt # rest) quals =
     quals_loop rest
       (case pt of
          ObjectRef classname nm \<Rightarrow> quals @ [classname]
        | Collection schema_name element_type nm \<Rightarrow>
            (case element_type of
               ObjectRef classname enm \<Rightarrow> (quals @ [schema_name]) @ [classname]
             | _ \<Rightarrow> (quals @ [schema_name]) @ [type_name element_type])
        | Type nm \<Rightarrow> quals @ [nm])"

text \<open>
  \<open>quals\<close> as it stands before the \<open>return\<close>, for the argument \<open>paramtypes\<close> (here
  \<open>ptypes\<close>): \<open>if paramtypes:\<close> skips the loop for \<open>None\<close> and for the empty list.
\<close>

definition function_quals :: "SchemaType list option \<Rightarrow> string list" where
  "function_quals ptypes =
     (case ptypes of
        None \<Rightarrow> []
      | Some pts \<Rightarrow> if pts = [] then [] else quals_loop pts [])"

text \<open>
  \<open>named.NamedObject.get_specialized_name(name, *quals)\<close> is defined outside this file:
  it is the parameter \<open>get_specialized_name\<close>, given the base name and the list of
  qualifiers.
\<close>

definition get_function_fullname ::
  "(Name \<Rightarrow> string list \<Rightarrow> string) \<Rightarrow> Name \<Rightarrow> SchemaType list option \<Rightarrow> Name" where
  "get_function_fullname get_specialized_name nm ptypes =
     \<lparr>module = module nm,
      name = get_specialized_name nm (function_quals ptypes)\<rparr>"

subsection \<open>\<open>CreateFunction\<close>\<close>

text \<open>
  \<open>props\<close>, the dictionary that \<open>super().get_struct_properties(schema)\<close> returns, with
  the keys this file reads. \<open>props['name']\<close> is always there; a sequence is \<open>None\<close>
  when its key is absent (\<open>props.get('paramtypes')\<close> then gives \<open>None\<close>, and
  \<open>props['paramtypes']\<close> raises).
\<close>

record FunctionProps =
  props_name :: Name
  props_paramnames :: "string list option"
  props_paramtypes :: "SchemaType list option"
  props_paramdefaults :: "string option list option"

definition get_struct_properties ::
  "(Name \<Rightarrow> string list \<Rightarrow> string) \<Rightarrow> FunctionProps \<Rightarrow> FunctionProps" where
  "get_struct_properties get_specialized_name props =
     props\<lparr>props_name :=
       get_function_fullname get_specialized_name (props_name props) (props_paramtypes props)\<rparr>"

text \<open>
  The loop over \<open>zip(props['paramnames'], props['paramtypes'], props['paramdefaults'])\<close>:
  the error it raises, or \<open>None\<close> when it runs to its end.
\<close>

fun any_defaults_loop :: "(string \<times> SchemaType \<times> string option) list \<Rightarrow> error option" where
  "any_defaults_loop [] = None"
| "any_defaults_loop ((pn, pt, pd) # rest) =
     (if type_name pt = ''std::any'' \<and> pd \<noteq> None
      then Some PolymorphicDefaultError
      else any_defaults_loop rest)"

text \<open>
  \<open>_add_to_schema\<close> on the schema as a map from names to objects: \<open>schema.get(fullname,
  None)\<close> is the lookup, and an object it finds is true in \<open>if func:\<close>. The result is
  what the call did (the error raised, or \<open>()\<close>) and the schema as the call leaves it;
  every \<open>raise\<close> comes before the schema is touched. \<open>super()._add_to_schema(schema)\<close>
  is outside this file: it is the parameter \<open>super_add_to_schema\<close>, the change it makes
  to the schema.
\<close>

definition add_to_schema ::
  "(Name \<Rightarrow> string list \<Rightarrow> string) \<Rightarrow> ((Name \<rightharpoonup> 'obj) \<Rightarrow> (Name \<rightharpoonup> 'obj)) \<Rightarrow>
   FunctionProps \<Rightarrow> (Name \<rightharpoonup> 'obj) \<Rightarrow> (error + unit) \<times> (Name \<rightharpoonup> 'obj)" where
  "add_to_schema get_specialized_name super_add_to_schema props schema =
     (let fullname =
            get_function_fullname get_specialized_name (props_name props) (props_paramtypes props)
      in case props_paramnames props of
           None \<Rightarrow> (Inl (KeyError ''paramnames''), schema)
         | Some pns \<Rightarrow>
        (case props_paramtypes props of
           None \<Rightarrow> (Inl (KeyError ''paramtypes''), schema)
         | Some pts \<Rightarrow>
        (case props_paramdefaults props of
           None \<Rightarrow> (Inl (KeyError ''paramdefaults''), schema)
         | Some pds \<Rightarrow>
        (case any_defaults_loop (zip pns (zip pts pds)) of
           Some e \<Rightarrow> (Inl e, schema)
         | None \<Rightarrow>
        (case schema fullname of
           Some func \<Rightarrow> (Inl DuplicateSignatureError, schema)
         | None \<Rightarrow> (Inr (), super_add_to_schema schema))))))"

text \<open>
  The command tree: \<open>cmd.add(sd.AlterObjectProperty(property=..., new_value=...))\<close>
  appends a child to \<open>cmd\<close>. A value is one of the kinds of value this file stores.
\<close>

datatype 'lang PropValue =
    StrListValue "string list"
  | TypeListValue "SchemaType list"
  | TypeModListValue "TypeModifier list"
  | KindListValue "ParameterKind list"
  | DefaultListValue "string option list"
  | TypeValue SchemaType
  | BoolValue bool
  | TypeModValue TypeModifier
  | StrValue string
  | OptStrValue "string option"
  | LanguageValue 'lang

record 'lang AlterObjectProperty =
  property :: string
  new_value :: "'lang PropValue"

text \<open>
  \<open>CreateFunction._cmd_tree_from_ast\<close>. \<open>cmd\<close> is the list of children of the command
  that \<open>super()._cmd_tree_from_ast\<close> returns.
\<close>

definition cmd_tree_from_ast ::
  "('ex \<Rightarrow> string) \<Rightarrow> ('ty \<Rightarrow> SchemaType) \<Rightarrow> 'lang AlterObjectProperty list \<Rightarrow>
   ('ty, 'ex, 'lang) CreateFunctionStmt \<Rightarrow> error + 'lang AlterObjectProperty list" where
  "cmd_tree_from_ast generate_source ast_to_typeref cmd astnode =
     (case parameters_from_ast generate_source ast_to_typeref astnode True of
        Inl e \<Rightarrow> Inl e
      | Inr pi \<Rightarrow>
          (let cmd1 = cmd @
                 [\<lparr>property = ''paramnames'', new_value = StrListValue (paramnames pi)\<rparr>,
                  \<lparr>property = ''paramtypes'', new_value = TypeListValue (paramtypes pi)\<rparr>,
                  \<lparr>property = ''paramtypemods'', new_value = TypeModListValue (paramtypemods pi)\<rparr>,
                  \<lparr>property = ''paramkinds'', new_value = KindListValue (paramkinds pi)\<rparr>,
                  \<lparr>property = ''paramdefaults'', new_value = DefaultListValue (paramdefaults pi)\<rparr>,
                  \<lparr>property = ''return_type'',
                   new_value = TypeValue (ast_to_typeref (returning astnode))\<rparr>,
                  \<lparr>property = ''aggregate'', new_value = BoolValue (aggregate astnode)\<rparr>,
                  \<lparr>property = ''return_typemod'',
                   new_value = TypeModValue (returning_typemod astnode)\<rparr>];
               cmd2 = (case initial_value astnode of
                         None \<Rightarrow> cmd1
                       | Some iv \<Rightarrow>
                           cmd1 @ [\<lparr>property = ''initial_value'',
                                    new_value = StrValue (generate_source iv)\<rparr>]);
               cmd3 = (case code astnode of
                         None \<Rightarrow> cmd2
                       | Some c \<Rightarrow>
                           (let cmd_l = cmd2 @ [\<lparr>property = ''language'',
                                                 new_value = LanguageValue (language c)\<rparr>]
                            in case from_name c of
                                 Some f \<Rightarrow>
                                   cmd_l @ [\<lparr>property = ''from_function'',
                                             new_value = StrValue f\<rparr>]
                               | None \<Rightarrow>
                                   cmd_l @ [\<lparr>property = ''code'',
                                             new_value = OptStrValue (code_text c)\<rparr>]))
           in Inr cmd3))"

subsection \<open>\<open>DeleteFunction._classname_from_ast\<close>\<close>

text \<open>
  \<open>nm\<close> is what \<open>super()._classname_from_ast\<close> returns, the base name of the statement.
  \<open>parameters_from_ast\<close> is called without \<open>allow_named\<close>, so with its default
  \<open>True\<close>.
\<close>

definition classname_from_ast ::
  "(Name \<Rightarrow> string list \<Rightarrow> string) \<Rightarrow> ('ex \<Rightarrow> string) \<Rightarrow> ('ty \<Rightarrow> SchemaType) \<Rightarrow> Name \<Rightarrow>
   ('ty, 'ex, 'm) FunctionStmt_scheme \<Rightarrow> error + Name" where
  "classname_from_ast get_specialized_name generate_source ast_to_typeref nm astnode =
     (case parameters_from_ast generate_source ast_to_typeref astnode True of
        Inl e \<Rightarrow> Inl e
      | Inr pi \<Rightarrow> Inr (get_function_fullname get_specialized_name nm (Some (paramtypes pi))))"

subsection \<open>Notions the properties are stated with\<close>

text \<open>
  The qualifier tokens of one parameter type, in the spec's words: the referenced
  object's qualified name for a forward reference; for a container type the container's
  schema name, then the element's qualified name if the element is a forward reference
  and the element's plain name otherwise; the type's plain name for any other type.
\<close>

fun qualifier_tokens :: "SchemaType \<Rightarrow> string list" where
  "qualifier_tokens (ObjectRef classname nm) = [classname]"
| "qualifier_tokens (Collection schema_name element_type nm) =
     [schema_name,
      (case element_type of
         ObjectRef classname enm \<Rightarrow> classname
       | _ \<Rightarrow> type_name element_type)]"
| "qualifier_tokens (Type nm) = [nm]"

text \<open>The index of the last occurrence of \<open>x\<close> in a list, \<open>None\<close> when there is none.\<close>

fun last_index :: "'a \<Rightarrow> 'a list \<Rightarrow> nat option" where
  "last_index x [] = None"
| "last_index x (y # ys) =
     (case last_index x ys of
        Some i \<Rightarrow> Some (Suc i)
      | None \<Rightarrow> if y = x then Some 0 else None)"

text \<open>
  Modelled from the spec: \<open>named.NamedObject.get_specialized_name\<close> is not part of
  this file. The spec calls it "a stable, collision-resistant encoding - any two distinct
  ordered qualifier sequences must yield distinct qualified names; identical sequences
  must yield identical names". \<open>collision_resistant\<close> says so of a helper, for the base
  name \<open>nm\<close> and the qualifier sequences of a set \<open>S\<close>.
\<close>

definition collision_resistant ::
  "(Name \<Rightarrow> string list \<Rightarrow> string) \<Rightarrow> Name \<Rightarrow> string list set \<Rightarrow> bool" where
  "collision_resistant get_specialized_name nm S = inj_on (get_specialized_name nm) S"

text \<open>
  Modelled from the spec: \<open>named.NamedObject.get_specialized_name\<close> is not part of
  this file and the spec gives no encoding for it, only an example: the function \<open>f\<close> of
  module \<open>a\<close> with the signature suffix \<open>_int64\<close> has the qualified name \<open>a.f_int64\<close>.
  \<open>example_specialized_name\<close> follows the example, each qualifier after an underscore.
  It stands in for the helper only where a theorem is evaluated on concrete names; every
  theorem below holds for any helper.
\<close>

definition example_specialized_name :: "Name \<Rightarrow> string list \<Rightarrow> string" where
  "example_specialized_name nm quals = name nm @ concat (map (\<lambda>q. CHR ''_'' # q) quals)"

section \<open>Properties\<close>

subsection \<open>The loops in closed form\<close>

lemma quals_loop_tokens: "quals_loop pts quals = quals @ concat (map qualifier_tokens pts)"
proof (induction pts arbitrary: quals)
  case Nil
  show ?case by simp
next
  case (Cons pt rest)
  show ?case
    by (cases pt) (simp_all add: Cons.IH split: SchemaType.split)
qed

lemma function_quals_tokens:
  "function_quals (Some pts) = concat (map qualifier_tokens pts)"
  by (simp add: function_quals_def quals_loop_tokens)

lemma parameters_loop_eq:
  "parameters_loop gs tr an i as acc =
     (if \<not> an \<and> NAMED_ONLY \<in> set (map arg_kind as)
      then Inl InvalidParameterKindError
      else Inr \<lparr>paramnames = paramnames acc @ map arg_name as,
                paramdefaults = paramdefaults acc @ map (\<lambda>a. map_option gs (arg_default a)) as,
                paramtypes = paramtypes acc @ map (\<lambda>a. tr (arg_type a)) as,
                paramtypemods = paramtypemods acc @ map arg_typemod as,
                paramkinds = paramkinds acc @ map arg_kind as,
                variadic = (case last_index VARIADIC (map arg_kind as) of
                              Some j \<Rightarrow> Some (i + j)
                            | None \<Rightarrow> variadic acc)\<rparr>)"
proof (induction as arbitrary: i acc)
  case Nil
  show ?case by simp
next
  case (Cons a as)
  show ?case
  proof (cases an)
    case True
    with Cons.IH show ?thesis
      by (simp add: Let_def split: option.split)
  next
    case False
    with Cons.IH show ?thesis
      by (simp add: Let_def split: option.split)
  qed
qed

lemma parameters_from_ast_eq:
  "parameters_from_ast gs tr astnode an =
     (if \<not> an \<and> NAMED_ONLY \<in> set (map arg_kind (args astnode))
      then Inl InvalidParameterKindError
      else Inr \<lparr>paramnames = map arg_name (args astnode),
                paramdefaults = map (\<lambda>a. map_option gs (arg_default a)) (args astnode),
                paramtypes = map (\<lambda>a. tr (arg_type a)) (args astnode),
                paramtypemods = map arg_typemod (args astnode),
                paramkinds = map arg_kind (args astnode),
                variadic = last_index VARIADIC (map arg_kind (args astnode))\<rparr>)"
  by (cases "last_index VARIADIC (map arg_kind (args astnode))")
     (simp_all add: parameters_from_ast_def parameters_loop_eq)

lemma last_index_None: "last_index x ys = None \<longleftrightarrow> x \<notin> set ys"
  by (induction ys) (auto split: option.splits)

lemma last_index_Some:
  "last_index x ys = Some i \<Longrightarrow>
     i < length ys \<and> ys ! i = x \<and> (\<forall>j. i < j \<and> j < length ys \<longrightarrow> ys ! j \<noteq> x)"
proof (induction ys arbitrary: i)
  case Nil
  then show ?case by simp
next
  case (Cons y ys)
  show ?case
  proof (cases "last_index x ys")
    case None
    then have notin: "x \<notin> set ys" by (simp add: last_index_None)
    from Cons.prems None have i0: "i = 0" and yx: "y = x"
      by (auto split: if_splits)
    have "ys ! j \<noteq> x" if "j < length ys" for j
      using notin that by (metis nth_mem)
    then show ?thesis using i0 yx
      by (auto simp: nth_Cons split: nat.split)
  next
    case (Some k)
    with Cons.prems have ik: "i = Suc k" by simp
    from Cons.IH [OF Some] show ?thesis using ik
      by (auto simp: nth_Cons split: nat.split)
  qed
qed

lemma count_list_le1_unique:
  "count_list ys x \<le> 1 \<Longrightarrow> i < length ys \<Longrightarrow> j < length ys \<Longrightarrow>
   ys ! i = x \<Longrightarrow> ys ! j = x \<Longrightarrow> i = j"
proof (induction ys arbitrary: i j)
  case Nil
  then show ?case by simp
next
  case (Cons y ys)
  show ?case
  proof (cases "y = x")
    case True
    with Cons.prems(1) have "count_list ys x = 0" by simp
    then have "x \<notin> set ys" by (simp add: count_list_0_iff)
    with Cons.prems True show ?thesis
      by (cases i; cases j) auto
  next
    case False
    with Cons.prems obtain i' j' where "i = Suc i'" "j = Suc j'"
      by (cases i; cases j) auto
    with Cons.prems False Cons.IH [of i' j'] show ?thesis by simp
  qed
qed

lemma any_defaults_loop_eq:
  "any_defaults_loop zs =
     (if \<exists>(pn, pt, pd) \<in> set zs. type_name pt = ''std::any'' \<and> pd \<noteq> None
      then Some PolymorphicDefaultError else None)"
  by (induction zs rule: any_defaults_loop.induct) auto

lemma zip3_ex_nth:
  assumes "length pns = length pts" and "length pds = length pts"
  shows "(\<exists>(pn, pt, pd) \<in> set (zip pns (zip pts pds)). P pt pd) \<longleftrightarrow>
         (\<exists>i<length pts. P (pts ! i) (pds ! i))"
proof
  assume "\<exists>(pn, pt, pd) \<in> set (zip pns (zip pts pds)). P pt pd"
  then obtain pn pt pd where mem: "(pn, pt, pd) \<in> set (zip pns (zip pts pds))" and P: "P pt pd"
    by auto
  from mem have "(pt, pd) \<in> set (zip pts pds)" by (auto dest: set_zip_rightD)
  then obtain i where "i < length pts" "pts ! i = pt" "pds ! i = pd"
    by (auto simp: set_zip)
  with P show "\<exists>i<length pts. P (pts ! i) (pds ! i)" by auto
next
  assume "\<exists>i<length pts. P (pts ! i) (pds ! i)"
  then obtain i where i: "i < length pts" and P: "P (pts ! i) (pds ! i)" by auto
  with assms have "(pns ! i, pts ! i, pds ! i) \<in> set (zip pns (zip pts pds))"
    by (auto simp: set_zip)
  with P show "\<exists>(pn, pt, pd) \<in> set (zip pns (zip pts pds)). P pt pd" by auto
qed

lemma parameters_from_ast_args:
  "args a = args b \<Longrightarrow> parameters_from_ast gs tr a an = parameters_from_ast gs tr b an"
  by (simp add: parameters_from_ast_def)

subsection \<open>Parameter extraction\<close>

text \<open>
  C6. For every valid parameter list (at most one argument of kind VARIADIC, and no
  named-only argument where \<open>allow_named\<close> is false), \<open>parameters_from_ast\<close> returns a
  \<open>ParametersInfo\<close> whose names, types, type modifiers and kinds are those of the
  arguments in declaration order, so all four have the length of the argument list, and
  whose kinds hold VARIADIC at most once.
\<close>

theorem parameters_from_ast_parallel:
  assumes "allow_named \<or> NAMED_ONLY \<notin> set (map arg_kind (args astnode))"
    and "count_list (map arg_kind (args astnode)) VARIADIC \<le> 1"
  shows "\<exists>pi. parameters_from_ast gs tr astnode allow_named = Inr pi \<and>
           paramnames pi = map arg_name (args astnode) \<and>
           paramtypes pi = map (\<lambda>a. tr (arg_type a)) (args astnode) \<and>
           paramtypemods pi = map arg_typemod (args astnode) \<and>
           paramkinds pi = map arg_kind (args astnode) \<and>
           length (paramnames pi) = length (args astnode) \<and>
           length (paramtypes pi) = length (args astnode) \<and>
           length (paramtypemods pi) = length (args astnode) \<and>
           length (paramkinds pi) = length (args astnode) \<and>
           count_list (paramkinds pi) VARIADIC \<le> 1"
  using assms by (auto simp: parameters_from_ast_eq)

theorem parameters_from_ast_parallel_witness:
  "NAMED_ONLY \<notin> set (map arg_kind (args
      \<lparr>args = [\<lparr>arg_name = ''sep'', arg_type = ''std::str'', arg_typemod = SINGLETON,
                 arg_kind = POSITIONAL, arg_default = Some ''1''\<rparr>,
                \<lparr>arg_name = ''parts'', arg_type = ''std::str'', arg_typemod = SINGLETON,
                 arg_kind = VARIADIC, arg_default = None\<rparr>]\<rparr>)) \<and>
   count_list (map arg_kind (args
      \<lparr>args = [\<lparr>arg_name = ''sep'', arg_type = ''std::str'', arg_typemod = SINGLETON,
                 arg_kind = POSITIONAL, arg_default = Some ''1''\<rparr>,
                \<lparr>arg_name = ''parts'', arg_type = ''std::str'', arg_typemod = SINGLETON,
                 arg_kind = VARIADIC, arg_default = None\<rparr>]\<rparr>)) VARIADIC \<le> 1 \<and>
   (\<exists>pi. parameters_from_ast (\<lambda>e. e) Type
      \<lparr>args = [\<lparr>arg_name = ''sep'', arg_type = ''std::str'', arg_typemod = SINGLETON,
                 arg_kind = POSITIONAL, arg_default = Some ''1''\<rparr>,
                \<lparr>arg_name = ''parts'', arg_type = ''std::str'', arg_typemod = SINGLETON,
                 arg_kind = VARIADIC, arg_default = None\<rparr>]\<rparr> False = Inr pi \<and>
      paramnames pi = [''sep'', ''parts''] \<and>
      paramtypes pi = [Type ''std::str'', Type ''std::str''] \<and>
      paramtypemods pi = [SINGLETON, SINGLETON] \<and>
      paramkinds pi = [POSITIONAL, VARIADIC] \<and>
      count_list (paramkinds pi) VARIADIC \<le> 1)"
  using parameters_from_ast_parallel [of False
      "\<lparr>args = [\<lparr>arg_name = ''sep'', arg_type = ''std::str'', arg_typemod = SINGLETON,
                 arg_kind = POSITIONAL, arg_default = Some ''1''\<rparr>,
                \<lparr>arg_name = ''parts'', arg_type = ''std::str'', arg_typemod = SINGLETON,
                 arg_kind = VARIADIC, arg_default = None\<rparr>]\<rparr>" "\<lambda>e. e" Type]
  by auto

text \<open>
  C7, as the code has it. Where \<open>parameters_from_ast\<close> returns (no named-only argument
  with \<open>allow_named\<close> false), the \<open>variadic\<close> field is \<open>None\<close> when no argument is
  VARIADIC, and otherwise the index of the last VARIADIC argument: the assignment
  \<open>variadic = argi\<close> runs for every VARIADIC argument, each overwriting the one before.
  It is the index of the first VARIADIC argument as well when the list has at most one.
\<close>

theorem parameters_from_ast_variadic:
  assumes "allow_named \<or> NAMED_ONLY \<notin> set (map arg_kind (args astnode))"
  shows "\<exists>pi. parameters_from_ast gs tr astnode allow_named = Inr pi \<and>
     (case variadic pi of
        None \<Rightarrow> VARIADIC \<notin> set (map arg_kind (args astnode))
      | Some i \<Rightarrow>
          i < length (args astnode) \<and> arg_kind (args astnode ! i) = VARIADIC \<and>
          (\<forall>j. i < j \<and> j < length (args astnode) \<longrightarrow> arg_kind (args astnode ! j) \<noteq> VARIADIC) \<and>
          (count_list (map arg_kind (args astnode)) VARIADIC \<le> 1 \<longrightarrow>
             (\<forall>j. j < i \<longrightarrow> arg_kind (args astnode ! j) \<noteq> VARIADIC)))"
proof -
  let ?ks = "map arg_kind (args astnode)"
  let ?pi = "\<lparr>paramnames = map arg_name (args astnode),
              paramdefaults = map (\<lambda>a. map_option gs (arg_default a)) (args astnode),
              paramtypes = map (\<lambda>a. tr (arg_type a)) (args astnode),
              paramtypemods = map arg_typemod (args astnode),
              paramkinds = ?ks,
              variadic = last_index VARIADIC ?ks\<rparr>"
  have ret: "parameters_from_ast gs tr astnode allow_named = Inr ?pi"
    using assms by (auto simp: parameters_from_ast_eq)
  have var: "variadic ?pi = last_index VARIADIC ?ks" by simp
  have "case last_index VARIADIC ?ks of
        None \<Rightarrow> VARIADIC \<notin> set ?ks
      | Some i \<Rightarrow>
          i < length (args astnode) \<and> arg_kind (args astnode ! i) = VARIADIC \<and>
          (\<forall>j. i < j \<and> j < length (args astnode) \<longrightarrow> arg_kind (args astnode ! j) \<noteq> VARIADIC) \<and>
          (count_list ?ks VARIADIC \<le> 1 \<longrightarrow>
             (\<forall>j. j < i \<longrightarrow> arg_kind (args astnode ! j) \<noteq> VARIADIC))"
  proof (cases "last_index VARIADIC ?ks")
    case None
    then have "VARIADIC \<notin> set ?ks"
      using last_index_None [of VARIADIC ?ks] by blast
    with None show ?thesis by simp
  next
    case (Some i)
    from last_index_Some [OF Some]
    have i: "i < length (args astnode)" "arg_kind (args astnode ! i) = VARIADIC"
      and after: "\<forall>j. i < j \<and> j < length (args astnode) \<longrightarrow> arg_kind (args astnode ! j) \<noteq> VARIADIC"
      by auto
    have "arg_kind (args astnode ! j) \<noteq> VARIADIC"
      if le1: "count_list ?ks VARIADIC \<le> 1" and j: "j < i" for j
    proof
      assume "arg_kind (args astnode ! j) = VARIADIC"
      with count_list_le1_unique [OF le1, of i j] i j show False by simp
    qed
    with i after Some show ?thesis by simp
  qed
  with ret var show ?thesis by (metis (no_types, lifting))
qed

theorem parameters_from_ast_variadic_witness:
  "NAMED_ONLY \<notin> set (map arg_kind (args
      \<lparr>args = [\<lparr>arg_name = ''sep'', arg_type = ''std::str'', arg_typemod = SINGLETON,
                 arg_kind = POSITIONAL, arg_default = None\<rparr>,
                \<lparr>arg_name = ''parts'', arg_type = ''std::str'', arg_typemod = SINGLETON,
                 arg_kind = VARIADIC, arg_default = None\<rparr>]\<rparr>)) \<and>
   (\<exists>pi. parameters_from_ast (\<lambda>e. e) Type
      \<lparr>args = [\<lparr>arg_name = ''sep'', arg_type = ''std::str'', arg_typemod = SINGLETON,
                 arg_kind = POSITIONAL, arg_default = None\<rparr>,
                \<lparr>arg_name = ''parts'', arg_type = ''std::str'', arg_typemod = SINGLETON,
                 arg_kind = VARIADIC, arg_default = None\<rparr>]\<rparr> False = Inr pi \<and>
      variadic pi = Some 1)"
  using parameters_from_ast_variadic [of False
      "\<lparr>args = [\<lparr>arg_name = ''sep'', arg_type = ''std::str'', arg_typemod = SINGLETON,
                 arg_kind = POSITIONAL, arg_default = None\<rparr>,
                \<lparr>arg_name = ''parts'', arg_type = ''std::str'', arg_typemod = SINGLETON,
                 arg_kind = VARIADIC, arg_default = None\<rparr>]\<rparr>" "\<lambda>e. e" Type]
  by (auto simp: parameters_from_ast_eq)

text \<open>
  C7 as stated fails on a list with two VARIADIC arguments: the first is at index 0 and
  the \<open>variadic\<close> field is 1.
\<close>

theorem parameters_from_ast_variadic_first_counterexample:
  "arg_kind ([\<lparr>arg_name = ''xs'', arg_type = ''std::str'', arg_typemod = SINGLETON,
               arg_kind = VARIADIC, arg_default = None :: string option\<rparr>,
              \<lparr>arg_name = ''ys'', arg_type = ''std::str'', arg_typemod = SINGLETON,
               arg_kind = VARIADIC, arg_default = None\<rparr>] ! 0) = VARIADIC \<and>
   parameters_from_ast (\<lambda>e. e) Type
      \<lparr>args = [\<lparr>arg_name = ''xs'', arg_type = ''std::str'', arg_typemod = SINGLETON,
                 arg_kind = VARIADIC, arg_default = None\<rparr>,
                \<lparr>arg_name = ''ys'', arg_type = ''std::str'', arg_typemod = SINGLETON,
                 arg_kind = VARIADIC, arg_default = None\<rparr>]\<rparr> True =
     Inr \<lparr>paramnames = [''xs'', ''ys''], paramdefaults = [None, None],
          paramtypes = [Type ''std::str'', Type ''std::str''],
          paramtypemods = [SINGLETON, SINGLETON], paramkinds = [VARIADIC, VARIADIC],
          variadic = Some 1\<rparr>"
  by (simp add: parameters_from_ast_def)

text \<open>
  C8. \<open>parameters_from_ast\<close> raises exactly when \<open>allow_named\<close> is false and some
  argument is NAMED_ONLY, and what it raises then is \<open>InvalidParameterKindError\<close>; with
  \<open>allow_named\<close> true it returns, whatever the kinds. (The type resolver and the code
  generator are taken to return.)
\<close>

theorem parameters_from_ast_named_only:
  "(parameters_from_ast gs tr astnode allow_named = Inl InvalidParameterKindError) =
     (\<not> allow_named \<and> NAMED_ONLY \<in> set (map arg_kind (args astnode))) \<and>
   isl (parameters_from_ast gs tr astnode allow_named) =
     (\<not> allow_named \<and> NAMED_ONLY \<in> set (map arg_kind (args astnode))) \<and>
   \<not> isl (parameters_from_ast gs tr astnode True)"
  by (simp add: parameters_from_ast_eq)

theorem parameters_from_ast_named_only_witness:
  "parameters_from_ast (\<lambda>e. e) Type
      \<lparr>args = [\<lparr>arg_name = ''sep'', arg_type = ''std::str'', arg_typemod = SINGLETON,
                 arg_kind = NAMED_ONLY, arg_default = Some ''1''\<rparr>]\<rparr> False =
     Inl InvalidParameterKindError \<and>
   \<not> isl (parameters_from_ast (\<lambda>e. e) Type
      \<lparr>args = [\<lparr>arg_name = ''sep'', arg_type = ''std::str'', arg_typemod = SINGLETON,
                 arg_kind = NAMED_ONLY, arg_default = Some ''1''\<rparr>]\<rparr> True)"
  using parameters_from_ast_named_only [of "\<lambda>e. e" Type
      "\<lparr>args = [\<lparr>arg_name = ''sep'', arg_type = ''std::str'', arg_typemod = SINGLETON,
                 arg_kind = NAMED_ONLY, arg_default = Some ''1''\<rparr>]\<rparr>" False]
  by simp

subsection \<open>The overload-qualified name\<close>

text \<open>
  C3. For one base name, the name that \<open>_get_function_fullname\<close> returns is determined by
  the qualifier tokens derived from the parameter types (the same tokens, so in
  particular the same parameter types, give the same name), and two parameter-type lists
  whose token sequences differ get different names, provided the name-specialization
  helper is collision-resistant on those sequences, as the spec says of it.
\<close>

theorem get_function_fullname_injective:
  assumes "collision_resistant gsn nm S"
    and "function_quals pts \<in> S"
    and "function_quals pts' \<in> S"
  shows "(get_function_fullname gsn nm pts = get_function_fullname gsn nm pts') =
         (function_quals pts = function_quals pts')"
proof
  assume "get_function_fullname gsn nm pts = get_function_fullname gsn nm pts'"
  then have eq: "gsn nm (function_quals pts) = gsn nm (function_quals pts')"
    by (simp add: get_function_fullname_def)
  from assms(1) have "inj_on (gsn nm) S"
    by (simp only: collision_resistant_def)
  from this eq assms(2,3) show "function_quals pts = function_quals pts'"
    by (rule inj_onD)
next
  assume "function_quals pts = function_quals pts'"
  then show "get_function_fullname gsn nm pts = get_function_fullname gsn nm pts'"
    by (simp add: get_function_fullname_def)
qed

theorem get_function_fullname_injective_witness:
  "collision_resistant example_specialized_name \<lparr>module = ''test'', name = ''f''\<rparr>
     {[''std::int64''], [''std::str'']} \<and>
   function_quals (Some [Type ''std::int64'']) \<in> {[''std::int64''], [''std::str'']} \<and>
   function_quals (Some [ObjectRef ''std::str'' ''std::str'']) \<in>
     {[''std::int64''], [''std::str'']} \<and>
   get_function_fullname example_specialized_name \<lparr>module = ''test'', name = ''f''\<rparr>
     (Some [Type ''std::int64'']) \<noteq>
   get_function_fullname example_specialized_name \<lparr>module = ''test'', name = ''f''\<rparr>
     (Some [ObjectRef ''std::str'' ''std::str''])"
  using get_function_fullname_injective [of example_specialized_name
     "\<lparr>module = ''test'', name = ''f''\<rparr>" "{[''std::int64''], [''std::str'']}"
     "Some [Type ''std::int64'']" "Some [ObjectRef ''std::str'' ''std::str'']"]
  by (simp add: collision_resistant_def function_quals_def example_specialized_name_def)

text \<open>
  C4. The qualifiers are the tokens of the parameter types in order: \<open>classname\<close> for
  an \<open>ObjectRef\<close>; \<open>schema_name\<close> and then the element's token for a \<open>Collection\<close>
  (the element's \<open>classname\<close> if it is an \<open>ObjectRef\<close>, its \<open>name\<close> otherwise);
  \<open>name\<close> for any other type. The name returned has the module of the base name and,
  as its local name, the base name specialized with these tokens.
\<close>

theorem get_function_fullname_tokens:
  "function_quals (Some pts) = concat (map qualifier_tokens pts) \<and>
   get_function_fullname gsn nm (Some pts) =
     \<lparr>module = module nm, name = gsn nm (concat (map qualifier_tokens pts))\<rparr>"
  by (simp add: get_function_fullname_def function_quals_tokens)

theorem get_function_fullname_tokens_witness:
  "get_function_fullname example_specialized_name \<lparr>module = ''test'', name = ''f''\<rparr>
     (Some [ObjectRef ''test::T'' ''test::T'',
            Collection ''array'' (ObjectRef ''std::int64'' ''std::int64'') ''array'',
            Collection ''array'' (Type ''std::str'') ''array'',
            Type ''std::bool'']) =
   \<lparr>module = ''test'',
    name = ''f_test::T_array_std::int64_array_std::str_std::bool''\<rparr>"
  using get_function_fullname_tokens [of
     "[ObjectRef ''test::T'' ''test::T'',
       Collection ''array'' (ObjectRef ''std::int64'' ''std::int64'') ''array'',
       Collection ''array'' (Type ''std::str'') ''array'',
       Type ''std::bool'']"
     example_specialized_name "\<lparr>module = ''test'', name = ''f''\<rparr>"]
  by (simp add: example_specialized_name_def)

text \<open>
  C10. With no parameter types (\<open>None\<close>) or an empty list, the name returned is the
  base name passed through the name-specialization helper with no qualifier, in the
  module of the base name. For a helper that ends every specialized name in \<open>@@\<close>, the
  function \<open>f\<close> without parameters is named \<open>f@@\<close>, not \<open>f\<close>.
\<close>

theorem get_function_fullname_no_parameters:
  "get_function_fullname gsn nm None = \<lparr>module = module nm, name = gsn nm []\<rparr> \<and>
   get_function_fullname gsn nm (Some []) = \<lparr>module = module nm, name = gsn nm []\<rparr>"
  by (simp add: get_function_fullname_def function_quals_def)

theorem get_function_fullname_no_parameters_witness:
  "get_function_fullname (\<lambda>nm quals. name nm @ ''@@'' @ concat quals)
     \<lparr>module = ''test'', name = ''f''\<rparr> None = \<lparr>module = ''test'', name = ''f@@''\<rparr> \<and>
   get_function_fullname (\<lambda>nm quals. name nm @ ''@@'' @ concat quals)
     \<lparr>module = ''test'', name = ''f''\<rparr> (Some []) = \<lparr>module = ''test'', name = ''f@@''\<rparr>"
  using get_function_fullname_no_parameters [of "\<lambda>nm quals. name nm @ ''@@'' @ concat quals"
     "\<lparr>module = ''test'', name = ''f''\<rparr>"]
  by simp

text \<open>
  C5. The name \<open>DeleteFunction._classname_from_ast\<close> computes for a drop statement is
  the name \<open>CreateFunction.get_struct_properties\<close> gives the function created from a
  statement with the same base name and the same argument list. The properties of the
  Create command hold the base name, and parameter types with the qualifier tokens of
  those extracted from the arguments (the extracted list itself, or its references
  resolved to the types they name). Named-only arguments are accepted in both.
\<close>

theorem classname_from_ast_create_name:
  assumes "args drop_ast = args create_ast"
    and "parameters_from_ast gs tr create_ast True = Inr pi"
    and "props_name props = nm"
    and "function_quals (props_paramtypes props) = function_quals (Some (paramtypes pi))"
  shows "classname_from_ast gsn gs tr nm drop_ast =
           Inr (props_name (get_struct_properties gsn props))"
proof -
  from assms(2) have "parameters_from_ast gs tr drop_ast True = Inr pi"
    by (simp only: parameters_from_ast_args [OF assms(1)])
  then have "classname_from_ast gsn gs tr nm drop_ast =
      Inr (get_function_fullname gsn nm (Some (paramtypes pi)))"
    by (simp add: classname_from_ast_def)
  with assms(3,4) show ?thesis
    by (simp add: get_struct_properties_def get_function_fullname_def)
qed

theorem classname_from_ast_create_name_witness:
  "args \<lparr>args = [\<lparr>arg_name = ''x'', arg_type = ''std::int64'', arg_typemod = SINGLETON,
                   arg_kind = NAMED_ONLY, arg_default = None :: string option\<rparr>]\<rparr> =
   args \<lparr>args = [\<lparr>arg_name = ''x'', arg_type = ''std::int64'', arg_typemod = SINGLETON,
                   arg_kind = NAMED_ONLY, arg_default = None :: string option\<rparr>],
         returning = ''std::int64'', returning_typemod = SINGLETON, aggregate = False,
         initial_value = None, code = None :: string FunctionCode option\<rparr> \<and>
   parameters_from_ast (\<lambda>e. e) (\<lambda>t. ObjectRef t t)
       \<lparr>args = [\<lparr>arg_name = ''x'', arg_type = ''std::int64'', arg_typemod = SINGLETON,
                   arg_kind = NAMED_ONLY, arg_default = None\<rparr>],
         returning = ''std::int64'', returning_typemod = SINGLETON, aggregate = False,
         initial_value = None, code = None :: string FunctionCode option\<rparr> True =
     Inr \<lparr>paramnames = [''x''], paramdefaults = [None],
          paramtypes = [ObjectRef ''std::int64'' ''std::int64''],
          paramtypemods = [SINGLETON], paramkinds = [NAMED_ONLY], variadic = None\<rparr> \<and>
   function_quals (Some [Type ''std::int64'']) =
     function_quals (Some [ObjectRef ''std::int64'' ''std::int64'']) \<and>
   classname_from_ast example_specialized_name (\<lambda>e. e) (\<lambda>t. ObjectRef t t)
       \<lparr>module = ''test'', name = ''f''\<rparr>
       \<lparr>args = [\<lparr>arg_name = ''x'', arg_type = ''std::int64'', arg_typemod = SINGLETON,
                   arg_kind = NAMED_ONLY, arg_default = None\<rparr>]\<rparr> =
     Inr \<lparr>module = ''test'', name = ''f_std::int64''\<rparr> \<and>
   props_name (get_struct_properties example_specialized_name
       \<lparr>props_name = \<lparr>module = ''test'', name = ''f''\<rparr>,
        props_paramnames = Some [''x''],
        props_paramtypes = Some [Type ''std::int64''],
        props_paramdefaults = Some [None]\<rparr>) =
     \<lparr>module = ''test'', name = ''f_std::int64''\<rparr>"
proof -
  have a: "args \<lparr>args = [\<lparr>arg_name = ''x'', arg_type = ''std::int64'', arg_typemod = SINGLETON,
                   arg_kind = NAMED_ONLY, arg_default = None :: string option\<rparr>]\<rparr> =
   args \<lparr>args = [\<lparr>arg_name = ''x'', arg_type = ''std::int64'', arg_typemod = SINGLETON,
                   arg_kind = NAMED_ONLY, arg_default = None :: string option\<rparr>],
         returning = ''std::int64'', returning_typemod = SINGLETON, aggregate = False,
         initial_value = None, code = None :: string FunctionCode option\<rparr>"
    by simp
  have p: "parameters_from_ast (\<lambda>e. e) (\<lambda>t. ObjectRef t t)
       \<lparr>args = [\<lparr>arg_name = ''x'', arg_type = ''std::int64'', arg_typemod = SINGLETON,
                   arg_kind = NAMED_ONLY, arg_default = None\<rparr>],
         returning = ''std::int64'', returning_typemod = SINGLETON, aggregate = False,
         initial_value = None, code = None :: string FunctionCode option\<rparr> True =
     Inr \<lparr>paramnames = [''x''], paramdefaults = [None],
          paramtypes = [ObjectRef ''std::int64'' ''std::int64''],
          paramtypemods = [SINGLETON], paramkinds = [NAMED_ONLY], variadic = None\<rparr>"
    by (simp add: parameters_from_ast_def)
  have q: "function_quals (Some [Type ''std::int64'']) =
     function_quals (Some [ObjectRef ''std::int64'' ''std::int64''])"
    by (simp add: function_quals_def)
  have g: "props_name (get_struct_properties example_specialized_name
       \<lparr>props_name = \<lparr>module = ''test'', name = ''f''\<rparr>,
        props_paramnames = Some [''x''],
        props_paramtypes = Some [Type ''std::int64''],
        props_paramdefaults = Some [None]\<rparr>) =
     \<lparr>module = ''test'', name = ''f_std::int64''\<rparr>"
    by (simp add: get_struct_properties_def get_function_fullname_def function_quals_def
          example_specialized_name_def)
  have c: "classname_from_ast example_specialized_name (\<lambda>e. e) (\<lambda>t. ObjectRef t t)
       \<lparr>module = ''test'', name = ''f''\<rparr>
       \<lparr>args = [\<lparr>arg_name = ''x'', arg_type = ''std::int64'', arg_typemod = SINGLETON,
                   arg_kind = NAMED_ONLY, arg_default = None\<rparr>]\<rparr> =
     Inr \<lparr>module = ''test'', name = ''f_std::int64''\<rparr>"
    using classname_from_ast_create_name [OF a p, of
       "\<lparr>props_name = \<lparr>module = ''test'', name = ''f''\<rparr>,
        props_paramnames = Some [''x''],
        props_paramtypes = Some [Type ''std::int64''],
        props_paramdefaults = Some [None]\<rparr>"
       "\<lparr>module = ''test'', name = ''f''\<rparr>" example_specialized_name] q g
    by simp
  from a p q c g show ?thesis by (intro conjI)
qed

subsection \<open>\<open>CreateFunction._add_to_schema\<close>\<close>

text \<open>
  C1, as the code has it. Take a Create command whose properties hold the three
  parameter sequences and whose qualified name is already in the schema. Adding it
  fails and leaves the schema as it was. The error is \<open>DuplicateSignatureError\<close> when
  no parameter of type \<open>std::any\<close> has a default; when one has, the check of the
  defaults, which runs before the lookup, raises \<open>PolymorphicDefaultError\<close> instead.
\<close>

theorem add_to_schema_duplicate:
  assumes "props_paramnames props = Some pns"
    and "props_paramtypes props = Some pts"
    and "props_paramdefaults props = Some pds"
    and "schema (get_function_fullname gsn (props_name props) (props_paramtypes props)) = Some func"
  shows "add_to_schema gsn super_add props schema =
           (Inl (if \<exists>(pn, pt, pd) \<in> set (zip pns (zip pts pds)).
                      type_name pt = ''std::any'' \<and> pd \<noteq> None
                 then PolymorphicDefaultError
                 else DuplicateSignatureError), schema)"
  using assms by (simp add: add_to_schema_def any_defaults_loop_eq)

theorem add_to_schema_duplicate_witness:
  "[\<lparr>module = ''test'', name = ''f_std::int64''\<rparr> \<mapsto> ()]
     (get_function_fullname example_specialized_name \<lparr>module = ''test'', name = ''f''\<rparr>
        (Some [Type ''std::int64''])) = Some () \<and>
   add_to_schema example_specialized_name (\<lambda>s. s)
     \<lparr>props_name = \<lparr>module = ''test'', name = ''f''\<rparr>,
      props_paramnames = Some [''x''],
      props_paramtypes = Some [Type ''std::int64''],
      props_paramdefaults = Some [Some ''1'']\<rparr>
     [\<lparr>module = ''test'', name = ''f_std::int64''\<rparr> \<mapsto> ()] =
   (Inl DuplicateSignatureError, [\<lparr>module = ''test'', name = ''f_std::int64''\<rparr> \<mapsto> ()])"
  using add_to_schema_duplicate [of
     "\<lparr>props_name = \<lparr>module = ''test'', name = ''f''\<rparr>,
      props_paramnames = Some [''x''],
      props_paramtypes = Some [Type ''std::int64''],
      props_paramdefaults = Some [Some ''1'']\<rparr>"
     "[''x'']" "[Type ''std::int64'']" "[Some ''1'']"
     "[\<lparr>module = ''test'', name = ''f_std::int64''\<rparr> \<mapsto> ()]"
     example_specialized_name "()" "\<lambda>s. s"]
  by (simp add: get_function_fullname_def function_quals_def example_specialized_name_def)

text \<open>
  C1 as stated fails for a function whose name is in the schema and whose parameter of
  type \<open>std::any\<close> has a default: the error is \<open>PolymorphicDefaultError\<close>.
\<close>

theorem add_to_schema_duplicate_counterexample:
  "[\<lparr>module = ''test'', name = ''f_std::any''\<rparr> \<mapsto> ()]
     (get_function_fullname example_specialized_name \<lparr>module = ''test'', name = ''f''\<rparr>
        (Some [Type ''std::any''])) = Some () \<and>
   add_to_schema example_specialized_name (\<lambda>s. s)
     \<lparr>props_name = \<lparr>module = ''test'', name = ''f''\<rparr>,
      props_paramnames = Some [''x''],
      props_paramtypes = Some [Type ''std::any''],
      props_paramdefaults = Some [Some ''1'']\<rparr>
     [\<lparr>module = ''test'', name = ''f_std::any''\<rparr> \<mapsto> ()] =
   (Inl PolymorphicDefaultError, [\<lparr>module = ''test'', name = ''f_std::any''\<rparr> \<mapsto> ()])"
  by (simp add: add_to_schema_def get_function_fullname_def function_quals_def
        example_specialized_name_def)

text \<open>
  C2. Take a Create command whose properties hold the three parameter sequences, of the
  same length. If some parameter has the type \<open>std::any\<close> and a default, adding the
  function fails with \<open>PolymorphicDefaultError\<close> and the schema is as it was; if no
  parameter is such, \<open>PolymorphicDefaultError\<close> is not raised.
\<close>

theorem add_to_schema_polymorphic_default:
  assumes "props_paramnames props = Some pns"
    and "props_paramtypes props = Some pts"
    and "props_paramdefaults props = Some pds"
    and "length pns = length pts"
    and "length pds = length pts"
  shows "if \<exists>i<length pts. type_name (pts ! i) = ''std::any'' \<and> pds ! i \<noteq> None
         then add_to_schema gsn super_add props schema = (Inl PolymorphicDefaultError, schema)
         else fst (add_to_schema gsn super_add props schema) \<noteq> Inl PolymorphicDefaultError"
proof -
  have eq: "(\<exists>(pn, pt, pd) \<in> set (zip pns (zip pts pds)). type_name pt = ''std::any'' \<and> pd \<noteq> None)
        \<longleftrightarrow> (\<exists>i<length pts. type_name (pts ! i) = ''std::any'' \<and> pds ! i \<noteq> None)"
    using assms(4,5) by (rule zip3_ex_nth)
  have loop: "any_defaults_loop (zip pns (zip pts pds)) =
      (if \<exists>i<length pts. type_name (pts ! i) = ''std::any'' \<and> pds ! i \<noteq> None
       then Some PolymorphicDefaultError else None)"
    by (simp only: any_defaults_loop_eq eq)
  show ?thesis
  proof (cases "\<exists>i<length pts. type_name (pts ! i) = ''std::any'' \<and> pds ! i \<noteq> None")
    case True
    with loop have "any_defaults_loop (zip pns (zip pts pds)) = Some PolymorphicDefaultError"
      by simp
    with assms(1-3) have "add_to_schema gsn super_add props schema =
        (Inl PolymorphicDefaultError, schema)"
      by (simp add: add_to_schema_def)
    then show ?thesis unfolding if_P [OF True] .
  next
    case False
    with loop have "any_defaults_loop (zip pns (zip pts pds)) = None"
      by simp
    with assms(1-3) have "fst (add_to_schema gsn super_add props schema) \<noteq>
        Inl PolymorphicDefaultError"
      by (simp add: add_to_schema_def split: option.split)
    then show ?thesis unfolding if_not_P [OF False] .
  qed
qed

theorem add_to_schema_polymorphic_default_witness:
  "add_to_schema example_specialized_name (\<lambda>s. s)
     \<lparr>props_name = \<lparr>module = ''test'', name = ''f''\<rparr>,
      props_paramnames = Some [''x'', ''y''],
      props_paramtypes = Some [Type ''std::int64'', Type ''std::any''],
      props_paramdefaults = Some [None, Some ''1'']\<rparr>
     (Map.empty :: Name \<rightharpoonup> unit) =
   (Inl PolymorphicDefaultError, Map.empty) \<and>
   fst (add_to_schema example_specialized_name (\<lambda>s. s)
     \<lparr>props_name = \<lparr>module = ''test'', name = ''f''\<rparr>,
      props_paramnames = Some [''x'', ''y''],
      props_paramtypes = Some [Type ''std::int64'', Type ''std::any''],
      props_paramdefaults = Some [Some ''1'', None]\<rparr>
     (Map.empty :: Name \<rightharpoonup> unit)) \<noteq> Inl PolymorphicDefaultError"
proof -
  have ex: "\<exists>i<length [Type ''std::int64'', Type ''std::any''].
      type_name ([Type ''std::int64'', Type ''std::any''] ! i) = ''std::any'' \<and>
      [None, Some ''1''] ! i \<noteq> None"
    by (rule exI [of _ 1]) simp
  have nex: "\<not> (\<exists>i<length [Type ''std::int64'', Type ''std::any''].
      type_name ([Type ''std::int64'', Type ''std::any''] ! i) = ''std::any'' \<and>
      [Some ''1'', None] ! i \<noteq> None)"
    by (auto simp: nth_Cons' split: if_splits)
  from add_to_schema_polymorphic_default [of
     "\<lparr>props_name = \<lparr>module = ''test'', name = ''f''\<rparr>,
      props_paramnames = Some [''x'', ''y''],
      props_paramtypes = Some [Type ''std::int64'', Type ''std::any''],
      props_paramdefaults = Some [None, Some ''1'']\<rparr>"
     "[''x'', ''y'']" "[Type ''std::int64'', Type ''std::any'']" "[None, Some ''1'']"
     example_specialized_name "\<lambda>s. s" "Map.empty :: Name \<rightharpoonup> unit"] ex
  have a: "add_to_schema example_specialized_name (\<lambda>s. s)
     \<lparr>props_name = \<lparr>module = ''test'', name = ''f''\<rparr>,
      props_paramnames = Some [''x'', ''y''],
      props_paramtypes = Some [Type ''std::int64'', Type ''std::any''],
      props_paramdefaults = Some [None, Some ''1'']\<rparr>
     (Map.empty :: Name \<rightharpoonup> unit) = (Inl PolymorphicDefaultError, Map.empty)"
    by simp
  from add_to_schema_polymorphic_default [of
     "\<lparr>props_name = \<lparr>module = ''test'', name = ''f''\<rparr>,
      props_paramnames = Some [''x'', ''y''],
      props_paramtypes = Some [Type ''std::int64'', Type ''std::any''],
      props_paramdefaults = Some [Some ''1'', None]\<rparr>"
     "[''x'', ''y'']" "[Type ''std::int64'', Type ''std::any'']" "[Some ''1'', None]"
     example_specialized_name "\<lambda>s. s" "Map.empty :: Name \<rightharpoonup> unit"] nex
  have b: "fst (add_to_schema example_specialized_name (\<lambda>s. s)
     \<lparr>props_name = \<lparr>module = ''test'', name = ''f''\<rparr>,
      props_paramnames = Some [''x'', ''y''],
      props_paramtypes = Some [Type ''std::int64'', Type ''std::any''],
      props_paramdefaults = Some [Some ''1'', None]\<rparr>
     (Map.empty :: Name \<rightharpoonup> unit)) \<noteq> Inl PolymorphicDefaultError"
    by simp
  from a b show ?thesis by (rule conjI)
qed

subsection \<open>\<open>CreateFunction._cmd_tree_from_ast\<close>\<close>

text \<open>
  C9, as the code has it. Let the command that \<open>super()._cmd_tree_from_ast\<close> returns
  have no \<open>language\<close>, \<open>from_function\<close> or \<open>code\<close> property. For a statement with
  an implementation body the tree records the language, whether or not the body names a
  delegate function; with a delegate it records the name in \<open>from_function\<close> and has no
  \<open>code\<close> property, without one it records the inline source in \<open>code\<close> and has no
  \<open>from_function\<close> property. For a statement without a body it has none of the three.
  No tree has both \<open>from_function\<close> and \<open>code\<close>.
\<close>

theorem cmd_tree_from_ast_code:
  assumes "\<forall>p \<in> set cmd. property p \<noteq> ''language'' \<and> property p \<noteq> ''from_function'' \<and>
             property p \<noteq> ''code''"
  shows "\<exists>tree. cmd_tree_from_ast gs tr cmd astnode = Inr tree \<and>
     (case code astnode of
        None \<Rightarrow>
          ''language'' \<notin> property ` set tree \<and> ''from_function'' \<notin> property ` set tree \<and>
          ''code'' \<notin> property ` set tree
      | Some c \<Rightarrow>
          \<lparr>property = ''language'', new_value = LanguageValue (language c)\<rparr> \<in> set tree \<and>
          (case from_name c of
             Some f \<Rightarrow>
               \<lparr>property = ''from_function'', new_value = StrValue f\<rparr> \<in> set tree \<and>
               ''code'' \<notin> property ` set tree
           | None \<Rightarrow>
               \<lparr>property = ''code'', new_value = OptStrValue (code_text c)\<rparr> \<in> set tree \<and>
               ''from_function'' \<notin> property ` set tree)) \<and>
     \<not> (''from_function'' \<in> property ` set tree \<and> ''code'' \<in> property ` set tree)"
proof -
  obtain pi where pi: "parameters_from_ast gs tr astnode True = Inr pi"
    by (simp add: parameters_from_ast_eq)
  from assms have cmd: "''language'' \<notin> property ` set cmd"
    "''from_function'' \<notin> property ` set cmd" "''code'' \<notin> property ` set cmd"
    by auto
  show ?thesis
  proof (cases "code astnode")
    case None
    with pi cmd show ?thesis
      by (cases "initial_value astnode") (simp_all add: cmd_tree_from_ast_def)
  next
    case (Some c)
    show ?thesis
    proof (cases "from_name c")
      case None
      with pi cmd Some show ?thesis
        by (cases "initial_value astnode") (simp_all add: cmd_tree_from_ast_def)
    next
      case (Some f)
      with pi cmd \<open>code astnode = Some c\<close> show ?thesis
        by (cases "initial_value astnode") (simp_all add: cmd_tree_from_ast_def)
    qed
  qed
qed

theorem cmd_tree_from_ast_code_witness:
  "(\<exists>tree. cmd_tree_from_ast (\<lambda>e. e) Type
       [\<lparr>property = ''name'', new_value = StrValue ''test::f''\<rparr>]
       \<lparr>args = [], returning = ''std::str'', returning_typemod = SINGLETON, aggregate = False,
        initial_value = None,
        code = Some \<lparr>language = ''SQL'', from_name = None,
                      code_text = Some ''SELECT 1''\<rparr>\<rparr> = Inr tree \<and>
     \<lparr>property = ''language'', new_value = LanguageValue ''SQL''\<rparr> \<in> set tree \<and>
     \<lparr>property = ''code'', new_value = OptStrValue (Some ''SELECT 1'')\<rparr> \<in> set tree \<and>
     ''from_function'' \<notin> property ` set tree) \<and>
   (\<exists>tree. cmd_tree_from_ast (\<lambda>e. e) Type
       [\<lparr>property = ''name'', new_value = StrValue ''test::f''\<rparr>]
       \<lparr>args = [], returning = ''std::str'', returning_typemod = SINGLETON, aggregate = False,
        initial_value = None,
        code = Some \<lparr>language = ''SQL'', from_name = Some ''lower'',
                      code_text = None\<rparr>\<rparr> = Inr tree \<and>
     \<lparr>property = ''language'', new_value = LanguageValue ''SQL''\<rparr> \<in> set tree \<and>
     \<lparr>property = ''from_function'', new_value = StrValue ''lower''\<rparr> \<in> set tree \<and>
     ''code'' \<notin> property ` set tree)"
proof -
  have base: "\<forall>p \<in> set [\<lparr>property = ''name'', new_value = StrValue ''test::f''\<rparr>].
      property p \<noteq> ''language'' \<and> property p \<noteq> ''from_function'' \<and> property p \<noteq> ''code''"
    by simp
  from cmd_tree_from_ast_code [OF base, of "\<lambda>e. e" Type
       "\<lparr>args = [], returning = ''std::str'', returning_typemod = SINGLETON, aggregate = False,
        initial_value = None,
        code = Some \<lparr>language = ''SQL'', from_name = None,
                      code_text = Some ''SELECT 1''\<rparr>\<rparr>"]
  have inline: "\<exists>tree. cmd_tree_from_ast (\<lambda>e. e) Type
       [\<lparr>property = ''name'', new_value = StrValue ''test::f''\<rparr>]
       \<lparr>args = [], returning = ''std::str'', returning_typemod = SINGLETON, aggregate = False,
        initial_value = None,
        code = Some \<lparr>language = ''SQL'', from_name = None,
                      code_text = Some ''SELECT 1''\<rparr>\<rparr> = Inr tree \<and>
     \<lparr>property = ''language'', new_value = LanguageValue ''SQL''\<rparr> \<in> set tree \<and>
     \<lparr>property = ''code'', new_value = OptStrValue (Some ''SELECT 1'')\<rparr> \<in> set tree \<and>
     ''from_function'' \<notin> property ` set tree"
    by auto
  from cmd_tree_from_ast_code [OF base, of "\<lambda>e. e" Type
       "\<lparr>args = [], returning = ''std::str'', returning_typemod = SINGLETON, aggregate = False,
        initial_value = None,
        code = Some \<lparr>language = ''SQL'', from_name = Some ''lower'',
                      code_text = None\<rparr>\<rparr>"]
  have delegate: "\<exists>tree. cmd_tree_from_ast (\<lambda>e. e) Type
       [\<lparr>property = ''name'', new_value = StrValue ''test::f''\<rparr>]
       \<lparr>args = [], returning = ''std::str'', returning_typemod = SINGLETON, aggregate = False,
        initial_value = None,
        code = Some \<lparr>language = ''SQL'', from_name = Some ''lower'',
                      code_text = None\<rparr>\<rparr> = Inr tree \<and>
     \<lparr>property = ''language'', new_value = LanguageValue ''SQL''\<rparr> \<in> set tree \<and>
     \<lparr>property = ''from_function'', new_value = StrValue ''lower''\<rparr> \<in> set tree \<and>
     ''code'' \<notin> property ` set tree"
    by auto
  from inline delegate show ?thesis by (rule conjI)
qed

text \<open>
  C9 as stated fails for a body that names a delegate function: the tree holds the
  \<open>language\<close> property, before \<open>from_function\<close>.
\<close>

theorem cmd_tree_from_ast_code_counterexample:
  "from_name \<lparr>language = ''SQL'', from_name = Some ''lower'', code_text = None\<rparr> = Some ''lower'' \<and>
   cmd_tree_from_ast (\<lambda>e. e) Type []
     \<lparr>args = [], returning = ''std::str'', returning_typemod = SINGLETON, aggregate = False,
      initial_value = None,
      code = Some \<lparr>language = ''SQL'', from_name = Some ''lower'', code_text = None\<rparr>\<rparr> =
   Inr [\<lparr>property = ''paramnames'', new_value = StrListValue []\<rparr>,
        \<lparr>property = ''paramtypes'', new_value = TypeListValue []\<rparr>,
        \<lparr>property = ''paramtypemods'', new_value = TypeModListValue []\<rparr>,
        \<lparr>property = ''paramkinds'', new_value = KindListValue []\<rparr>,
        \<lparr>property = ''paramdefaults'', new_value = DefaultListValue []\<rparr>,
        \<lparr>property = ''return_type'', new_value = TypeValue (Type ''std::str'')\<rparr>,
        \<lparr>property = ''aggregate'', new_value = BoolValue False\<rparr>,
        \<lparr>property = ''return_typemod'', new_value = TypeModValue SINGLETON\<rparr>,
        \<lparr>property = ''language'', new_value = LanguageValue ''SQL''\<rparr>,
        \<lparr>property = ''from_function'', new_value = StrValue ''lower''\<rparr>]"
  by (simp add: cmd_tree_from_ast_def parameters_from_ast_def)

end
